theory Spec2Isabelle
  imports Main
begin

section \<open>The turtle herder (turtle\_herder\_v2.py)\<close>

text \<open>
  A shallow embedding of \<^verbatim>\<open>rocon_service_turtlesim/scripts/turtle_herder_v2.py\<close>.
  The script is Python 2 (ROS hydro): \<^verbatim>\<open>class TurtleHerder:\<close> is an old-style class,
  whose \<^verbatim>\<open>__slots__\<close> is an ordinary class attribute without effect.

  The herder object is a record of its two lists. What the script does to the outside
  world (calls of the internal turtlesim services and of the gateway, replies, temporary
  files, processes, signals) is appended to a trace of effects, in program order. What the
  outside world answers is an input of each operation: a remote call returns, raises
  \<^verbatim>\<open>rospy.ServiceException\<close> or raises \<^verbatim>\<open>rospy.ROSInterruptException\<close>.
  Calls of \<^verbatim>\<open>rospy.logerr\<close>, \<^verbatim>\<open>rospy.loginfo\<close> and \<^verbatim>\<open>print\<close> change nothing
  and are left out of the trace. The three \<^verbatim>\<open>random.uniform\<close> draws of a spawn request
  go to the backend only, whose answer is an input here.
\<close>

subsection \<open>Errors, outcomes of remote calls, effects\<close>

datatype error =
    NameError string
  | AttributeError string
  | ValueError
  | ServiceException
  | ROSInterruptException
  | OSError

datatype outcome = Returns | RaisesServiceException | RaisesROSInterruptException

datatype signal = SIGTERM | SIGHUP

datatype connection_type = SUBSCRIBER | PUBLISHER

record Rule =
  rule_node :: string
  rule_type :: connection_type
  rule_name :: string

record RemoteRule =
  remote_gateway :: string
  remote_rule :: Rule

record RemoteRequest =
  request_cancel :: bool
  request_remotes :: "RemoteRule list"

datatype effect =
    InternalKill string
  | InternalSpawn string
  | GatewayFlip RemoteRequest
  | KillReply
  | TempFileCreated string
  | TempFileWritten string string
  | Popen "string list"
  | SendSignal nat signal
  | Unlink string

record ProcessInfo =
  process :: nat
  temp_file :: string

record herder =
  turtles :: "string list"
  process_info :: "ProcessInfo list"
  effects :: "effect list"
  files :: "string set"

definition emit :: "effect \<Rightarrow> herder \<Rightarrow> herder" where
  "emit e st = st\<lparr>effects := effects st @ [e]\<rparr>"

subsection \<open>Python's \<^verbatim>\<open>str\<close> on a non-negative integer\<close>

definition digit :: "nat \<Rightarrow> char" where
  "digit d = ''0123456789'' ! d"

fun str :: "nat \<Rightarrow> string" where
  "str n = (if n < 10 then [digit n] else str (n div 10) @ [digit (n mod 10)])"

declare str.simps [simp del]

subsection \<open>Name and attribute lookup\<close>

text \<open>
  The names bound at module level (the imports, the function and the two classes, and
  \<^verbatim>\<open>turtle_herder\<close> of the launch point), and the attributes an instance of
  \<^verbatim>\<open>TurtleHerder\<close> has: those assigned in \<^verbatim>\<open>__init__\<close> and those of the class body.
  No builtin of Python 2 is called \<^verbatim>\<open>msg\<close>.
\<close>

definition module_globals :: "string list" where
  "module_globals =
     [''os'', ''signal'', ''subprocess'', ''tempfile'', ''math'', ''random'', ''copy'',
      ''rospy'', ''rocon_gateway_utils'', ''rocon_python_utils'', ''turtlesim_srvs'',
      ''rocon_tutorial_srvs'', ''gateway_msgs'', ''gateway_srvs'',
      ''prepare_rocon_launch_text'', ''ProcessInfo'', ''TurtleHerder'', ''turtle_herder'']"

definition lookup_name :: "string list \<Rightarrow> string \<Rightarrow> error + unit" where
  "lookup_name local_names n =
     (if n \<in> set local_names \<or> n \<in> set module_globals then Inr () else Inl (NameError n))"

definition instance_attributes :: "string list" where
  "instance_attributes =
     [''turtles'', ''_process_info'', ''_kill_turtle_service_client'',
      ''_spawn_turtle_service_client'', ''_kill_turtle_service'', ''_spawn_turtle_service'',
      ''_gateway_flip_service'']"

definition class_attributes :: "string list" where
  "class_attributes =
     [''__doc__'', ''__module__'', ''__slots__'', ''__init__'', ''_kill_turtle_service'',
      ''_spawn_turtle_service'', ''spawn_turtles'', ''_send_flip_rules_request'',
      ''shutdown'', ''signal_handler'']"

definition getattr_self :: "string \<Rightarrow> error + unit" where
  "getattr_self n =
     (if n \<in> set instance_attributes \<or> n \<in> set class_attributes then Inr ()
      else Inl (AttributeError n))"

subsection \<open>\<^verbatim>\<open>prepare_rocon_launch_text\<close>\<close>

definition launch_entry :: "string \<Rightarrow> nat \<Rightarrow> string" where
  \<open>launch_entry name port =
     ''  <launch title="'' @ name @ '':114'' @ str port
       @ ''" package="rocon_service_turtlesim" name="turtle.launch" port="114'' @ str port
       @ ''">\<newline>''
     @ ''    <arg name="turtle_name" value="'' @ name @ ''"/>\<newline>''
     @ ''    <arg name="turtle_concert_whitelist" value="Turtle Concert;Turtle Teleop Concert;Concert Tutorial"/>\<newline>''
     @ ''    <arg name="turtle_rapp_whitelist" value="[rocon_apps, turtle_concert]"/>\<newline>''
     @ ''  </launch>\<newline>''\<close>

fun launch_loop :: "string list \<Rightarrow> nat \<Rightarrow> string \<Rightarrow> string" where
  "launch_loop [] port launch_text = launch_text"
| "launch_loop (name # rest) port launch_text =
     launch_loop rest (port + 1) (launch_text @ launch_entry name port)"

definition prepare_rocon_launch_text :: "string list \<Rightarrow> string" where
  "prepare_rocon_launch_text turtle_list =
     launch_loop turtle_list 11 ''<concert>\<newline>'' @ ''</concert>\<newline>''"

subsection \<open>Unique names\<close>

text \<open>
  The loop of \<^verbatim>\<open>_spawn_turtle_service\<close> (lines 137 to 141) and of \<^verbatim>\<open>spawn_turtles\<close>
  (lines 165 to 169):
  \<^verbatim>\<open>while name + name_extension in self.turtles:
      name_extension = '_' + str(count)
      count = count + 1\<close>
  It ends because the candidates are pairwise different and the list is finite; the
  lemmas before the function are what its termination proof needs.
\<close>

lemma digit_inj: "d < 10 \<Longrightarrow> e < 10 \<Longrightarrow> digit d = digit e \<Longrightarrow> d = e"
proof -
  assume a: "d < 10" "e < 10" "digit d = digit e"
  have dist: "distinct ''0123456789''" by simp
  have len: "length ''0123456789'' = 10" by simp
  from a dist len show "d = e"
    unfolding digit_def by (metis nth_eq_iff_index_eq)
qed

lemma str_nonempty: "str n \<noteq> []"
  by (subst str.simps) simp

lemma str_inj: "str n = str m \<Longrightarrow> n = m"
proof (induction n arbitrary: m rule: str.induct)
  case (1 n)
  show ?case
  proof (cases "n < 10")
    case True
    then have sn: "str n = [digit n]" by (subst str.simps) simp
    show ?thesis
    proof (cases "m < 10")
      case True
      then have "str m = [digit m]" by (subst str.simps) simp
      with sn "1.prems" have "digit n = digit m" by simp
      with \<open>n < 10\<close> \<open>m < 10\<close> show ?thesis by (rule digit_inj)
    next
      case False
      then have "str m = str (m div 10) @ [digit (m mod 10)]" by (subst str.simps) simp
      with sn "1.prems" have "str (m div 10) = []" by simp
      then show ?thesis by (simp add: str_nonempty)
    qed
  next
    case False
    then have sn: "str n = str (n div 10) @ [digit (n mod 10)]" by (subst str.simps) simp
    show ?thesis
    proof (cases "m < 10")
      case True
      then have "str m = [digit m]" by (subst str.simps) simp
      with sn "1.prems" have "str (n div 10) = []" by simp
      then show ?thesis by (simp add: str_nonempty)
    next
      case mf: False
      then have "str m = str (m div 10) @ [digit (m mod 10)]" by (subst str.simps) simp
      with sn "1.prems" have e1: "str (n div 10) = str (m div 10)"
        and e2: "digit (n mod 10) = digit (m mod 10)" by simp_all
      from "1.IH" [OF False e1] have d: "n div 10 = m div 10" .
      have "n mod 10 = m mod 10" by (rule digit_inj [OF _ _ e2]) simp_all
      with d show ?thesis by (metis div_mult_mod_eq)
    qed
  qed
qed

lemma finite_candidates: "finite {k. name @ ''_'' @ str k \<in> set registry}"
proof -
  have "inj (\<lambda>k. name @ ''_'' @ str k)"
    by (rule injI) (simp add: str_inj)
  then have "finite ((\<lambda>k. name @ ''_'' @ str k) -` set registry)"
    by (intro finite_vimageI) simp_all
  then show ?thesis by (simp add: vimage_def)
qed

function unique_extension :: "string list \<Rightarrow> string \<Rightarrow> string \<Rightarrow> nat \<Rightarrow> string" where
  "unique_extension registry name name_extension count =
     (if name @ name_extension \<in> set registry
      then unique_extension registry name (''_'' @ str count) (count + 1)
      else name_extension)"
  by pat_completeness auto
termination
proof (relation "measure (\<lambda>(registry, name, name_extension, count).
          card {k. count \<le> k \<and> name @ ''_'' @ str k \<in> set registry}
          + (if name @ name_extension \<in> set registry then 1 else 0))")
  show "wf (measure (\<lambda>(registry, name, name_extension, count).
          card {k. count \<le> k \<and> name @ ''_'' @ str k \<in> set registry}
          + (if name @ name_extension \<in> set registry then 1 else 0)))" by simp
next
  fix registry :: "string list" and name name_extension :: string and count :: nat
  assume mem: "name @ name_extension \<in> set registry"
  let ?A = "{k. count \<le> k \<and> name @ ''_'' @ str k \<in> set registry}"
  let ?B = "{k. count + 1 \<le> k \<and> name @ ''_'' @ str k \<in> set registry}"
  have finA: "finite ?A"
    by (rule finite_subset [OF _ finite_candidates [of name registry]]) auto
  have "card ?B + (if name @ ''_'' @ str count \<in> set registry then 1 else 0) \<le> card ?A"
  proof (cases "name @ ''_'' @ str count \<in> set registry")
    case True
    then have "count \<in> ?A" "count \<notin> ?B" by simp_all
    moreover have "?B \<subseteq> ?A" by auto
    ultimately have "?B \<subset> ?A" by blast
    with finA have "card ?B < card ?A" by (rule psubset_card_mono)
    with True show ?thesis by simp
  next
    case False
    have "?B \<subseteq> ?A" by auto
    with finA have "card ?B \<le> card ?A" by (rule card_mono)
    with False show ?thesis by simp
  qed
  with mem show "((registry, name, ''_'' @ str count, count + 1),
        (registry, name, name_extension, count))
      \<in> measure (\<lambda>(registry, name, name_extension, count).
          card {k. count \<le> k \<and> name @ ''_'' @ str k \<in> set registry}
          + (if name @ name_extension \<in> set registry then 1 else 0))"
    by simp
qed

declare unique_extension.simps [simp del]

definition unique_name :: "string list \<Rightarrow> string \<Rightarrow> string" where
  "unique_name registry name = name @ unique_extension registry name [] 0"

subsection \<open>The herder's methods\<close>

text \<open>\<^verbatim>\<open>__init__\<close>: both lists empty; the default turtle is killed.\<close>

definition init :: "string set \<Rightarrow> herder" where
  "init fs = \<lparr>turtles = [], process_info = [], effects = [InternalKill ''turtle1''], files = fs\<rparr>"

text \<open>
  \<^verbatim>\<open>_send_flip_rules_request\<close>: two rules, one request, submitted once. Both exceptions
  of the gateway call are caught, so the method always returns.
\<close>

definition flip_rules_request :: "string \<Rightarrow> bool \<Rightarrow> RemoteRequest" where
  "flip_rules_request name cancel =
     (let rules =
            [\<lparr>rule_node = [], rule_type = SUBSCRIBER,
               rule_name = ''/services/turtlesim/'' @ name @ ''/cmd_vel''\<rparr>,
             \<lparr>rule_node = [], rule_type = PUBLISHER,
               rule_name = ''/services/turtlesim/'' @ name @ ''/pose''\<rparr>]
      in \<lparr>request_cancel = cancel,
          request_remotes = map (\<lambda>rule. \<lparr>remote_gateway = name, remote_rule = rule\<rparr>) rules\<rparr>)"

definition send_flip_rules_request :: "outcome \<Rightarrow> herder \<Rightarrow> string \<Rightarrow> bool \<Rightarrow> herder" where
  "send_flip_rules_request flip_outcome st name cancel =
     (let st1 = emit (GatewayFlip (flip_rules_request name cancel)) st
      in case flip_outcome of
           Returns \<Rightarrow> st1
         | RaisesServiceException \<Rightarrow> st1
         | RaisesROSInterruptException \<Rightarrow> st1)"

text \<open>
  \<^verbatim>\<open>_spawn_turtle_service\<close>: the result is \<^verbatim>\<open>response.name\<close>, the empty string unless
  the backend call returned.
\<close>

definition spawn_turtle_service :: "outcome \<Rightarrow> outcome \<Rightarrow> herder \<Rightarrow> string \<Rightarrow> herder \<times> string" where
  "spawn_turtle_service spawn_outcome flip_outcome st req_name =
     (let name = unique_name (turtles st) req_name;
          st1 = emit (InternalSpawn name) st
      in case spawn_outcome of
           Returns \<Rightarrow>
             (let st2 = st1\<lparr>turtles := turtles st1 @ [name]\<rparr>
              in (send_flip_rules_request flip_outcome st2 name False, name))
         | RaisesServiceException \<Rightarrow> (st1, [])
         | RaisesROSInterruptException \<Rightarrow> (st1, []))"

text \<open>
  \<^verbatim>\<open>_kill_turtle_service\<close>. Its \<^verbatim>\<open>try\<close> statement (lines 117 to 124) is a definition
  of its own: the backend call, then \<^verbatim>\<open>self.turtles.remove(req.name)\<close>, which raises
  \<^verbatim>\<open>ValueError\<close> on a name that is not in the list; neither \<^verbatim>\<open>except\<close> clause
  catches that.
\<close>

datatype completion = Continue | Returned | Raised error

definition kill_turtle_try :: "outcome \<Rightarrow> herder \<Rightarrow> string \<Rightarrow> string \<Rightarrow> herder \<times> completion" where
  "kill_turtle_try kill_outcome st internal_service_request req_name =
     (let st1 = emit (InternalKill internal_service_request) st
      in case kill_outcome of
           Returns \<Rightarrow>
             (if req_name \<in> set (turtles st1)
              then (st1\<lparr>turtles := remove1 req_name (turtles st1)\<rparr>, Continue)
              else (st1, Raised ValueError))
         | RaisesServiceException \<Rightarrow> (st1, Continue)
         | RaisesROSInterruptException \<Rightarrow> (st1, Returned))"

text \<open>
  Line 116 reads \<^verbatim>\<open>msg.name\<close>; the parameter is \<^verbatim>\<open>req\<close>. Line 125 reads
  \<^verbatim>\<open>self._kill_turtle_service_pair_server\<close>. Both are looked up as Python does. Were
  \<^verbatim>\<open>msg\<close> bound, it would be the request (the docstring's \<^verbatim>\<open>@param msg\<close>), so that
  branch goes on with the request's name.
\<close>

definition kill_turtle_service :: "outcome \<Rightarrow> outcome \<Rightarrow> herder \<Rightarrow> string \<Rightarrow> herder \<times> (error + unit)" where
  "kill_turtle_service kill_outcome flip_outcome st req_name =
     (case lookup_name [''self'', ''req''] ''msg'' of
        Inl e \<Rightarrow> (st, Inl e)
      | Inr _ \<Rightarrow>
          (case kill_turtle_try kill_outcome st req_name req_name of
             (st1, Raised e) \<Rightarrow> (st1, Inl e)
           | (st1, Returned) \<Rightarrow> (st1, Inr ())
           | (st1, Continue) \<Rightarrow>
               (case getattr_self ''_kill_turtle_service_pair_server'' of
                  Inl e \<Rightarrow> (st1, Inl e)
                | Inr _ \<Rightarrow>
                    (send_flip_rules_request flip_outcome (emit KillReply st1) req_name True,
                     Inr ()))))"

text \<open>
  \<^verbatim>\<open>spawn_turtles\<close>. \<^verbatim>\<open>temp_name\<close> is the name \<^verbatim>\<open>tempfile.NamedTemporaryFile\<close> chose,
  \<^verbatim>\<open>hydro\<close> whether the ROS distribution is hydro, \<^verbatim>\<open>pid\<close> the launched process.
  Line 173 reads \<^verbatim>\<open>self._prepare_rocon_launch_text\<close>; were it an attribute, it would be
  the module's \<^verbatim>\<open>prepare_rocon_launch_text\<close>.
\<close>

definition spawn_turtles :: "string \<Rightarrow> bool \<Rightarrow> nat \<Rightarrow> herder \<Rightarrow> string list \<Rightarrow> herder \<times> (error + unit)" where
  "spawn_turtles temp_name hydro pid st turtle_list =
     (let turtle_names = map (unique_name (turtles st)) turtle_list;
          st1 = emit (TempFileCreated temp_name) (st\<lparr>files := insert temp_name (files st)\<rparr>)
      in case getattr_self ''_prepare_rocon_launch_text'' of
           Inl e \<Rightarrow> (st1, Inl e)
         | Inr _ \<Rightarrow>
             (let rocon_launch_text = prepare_rocon_launch_text turtle_list;
                  st2 = emit (TempFileWritten temp_name rocon_launch_text) st1;
                  st3 = emit (Popen (if hydro
                                     then [''rocon_launch'', ''--gnome'', temp_name, ''--screen'']
                                     else [''rocon_launch'', temp_name, ''--screen''])) st2
              in (st3\<lparr>turtles := turtles st3 @ turtle_names,
                      process_info := process_info st3
                        @ [\<lparr>process = pid, temp_file = temp_name\<rparr>]\<rparr>,
                  Inr ())))"

text \<open>
  \<^verbatim>\<open>shutdown\<close>: \<^verbatim>\<open>kill_client name\<close> is what the internal kill service does for
  \<^verbatim>\<open>name\<close>. Either exception leaves the loop (\<^verbatim>\<open>break  # quietly fail\<close>).
\<close>

fun shutdown_loop :: "(string \<Rightarrow> outcome) \<Rightarrow> string list \<Rightarrow> herder \<Rightarrow> herder" where
  "shutdown_loop kill_client [] st = st"
| "shutdown_loop kill_client (name # rest) st =
     (let st1 = emit (InternalKill name) st
      in case kill_client name of
           Returns \<Rightarrow> shutdown_loop kill_client rest st1
         | RaisesServiceException \<Rightarrow> st1
         | RaisesROSInterruptException \<Rightarrow> st1)"

definition shutdown :: "(string \<Rightarrow> outcome) \<Rightarrow> herder \<Rightarrow> herder" where
  "shutdown kill_client st = shutdown_loop kill_client (turtles st) st"

text \<open>
  \<^verbatim>\<open>signal_handler\<close>: \<^verbatim>\<open>os_kill pid sig\<close> says whether the signal can be sent (Python 2's
  \<^verbatim>\<open>Popen.send_signal\<close> is \<^verbatim>\<open>os.kill(self.pid, sig)\<close>, which raises \<^verbatim>\<open>OSError\<close>
  otherwise). \<^verbatim>\<open>terminate\<close> stands outside the \<^verbatim>\<open>try\<close>; the \<^verbatim>\<open>OSError\<close> of the
  SIGHUP is caught. \<^verbatim>\<open>os.unlink\<close> raises \<^verbatim>\<open>OSError\<close> on a file that does not exist.
\<close>

fun signal_handler_loop :: "(nat \<Rightarrow> signal \<Rightarrow> bool) \<Rightarrow> ProcessInfo list \<Rightarrow> herder \<Rightarrow> herder \<times> (error + unit)" where
  "signal_handler_loop os_kill [] st = (st, Inr ())"
| "signal_handler_loop os_kill (p # rest) st =
     (let st1 = emit (SendSignal (process p) SIGTERM) st
      in if os_kill (process p) SIGTERM
         then
           (let st2 = emit (SendSignal (process p) SIGHUP) st1;
                st3 = emit (Unlink (temp_file p)) st2
            in if temp_file p \<in> files st3
               then signal_handler_loop os_kill rest (st3\<lparr>files := files st3 - {temp_file p}\<rparr>)
               else (st3, Inl OSError))
         else (st1, Inl OSError))"

definition signal_handler :: "(nat \<Rightarrow> signal \<Rightarrow> bool) \<Rightarrow> herder \<Rightarrow> herder \<times> (error + unit)" where
  "signal_handler os_kill st = signal_handler_loop os_kill (process_info st) st"

subsection \<open>Sequences of calls\<close>

text \<open>
  What can happen to a herder, each with the answers of the outside world. A handler that
  raises leaves the herder as it was at the raise.
\<close>

datatype event =
    SpawnRequest string outcome outcome
  | KillRequest string outcome outcome
  | BatchSpawn "string list" string bool nat
  | ShutdownCall "string \<Rightarrow> outcome"
  | Sigint "nat \<Rightarrow> signal \<Rightarrow> bool"

fun step :: "herder \<Rightarrow> event \<Rightarrow> herder" where
  "step st (SpawnRequest n so fo) = fst (spawn_turtle_service so fo st n)"
| "step st (KillRequest n ko fo) = fst (kill_turtle_service ko fo st n)"
| "step st (BatchSpawn ns temp_name hydro pid) = fst (spawn_turtles temp_name hydro pid st ns)"
| "step st (ShutdownCall kill_client) = shutdown kill_client st"
| "step st (Sigint os_kill) = fst (signal_handler os_kill st)"

definition run :: "herder \<Rightarrow> event list \<Rightarrow> herder" where
  "run st evs = foldl step st evs"

subsection \<open>The port attribute of a launch entry\<close>

text \<open>
  Line 49 writes the text \<^verbatim>\<open>114\<close> followed by \<^verbatim>\<open>str(port)\<close> twice, in the title and
  in the \<^verbatim>\<open>port\<close> attribute, and \<^verbatim>\<open>port\<close> counts up from 11. \<open>allocated_port i\<close>
  names that text for the entry at index \<open>i\<close> of a batch, and \<open>entry_with_port\<close> is the
  entry as a function of that text; \<open>launch_entry_port\<close> below shows that the entries of
  \<^verbatim>\<open>prepare_rocon_launch_text\<close> are these.
\<close>

definition allocated_port :: "nat \<Rightarrow> string" where
  "allocated_port i = ''114'' @ str (11 + i)"

definition entry_with_port :: "string \<Rightarrow> string \<Rightarrow> string" where
  \<open>entry_with_port name port_text =
     ''  <launch title="'' @ name @ '':'' @ port_text
       @ ''" package="rocon_service_turtlesim" name="turtle.launch" port="'' @ port_text
       @ ''">\<newline>''
     @ ''    <arg name="turtle_name" value="'' @ name @ ''"/>\<newline>''
     @ ''    <arg name="turtle_concert_whitelist" value="Turtle Concert;Turtle Teleop Concert;Concert Tutorial"/>\<newline>''
     @ ''    <arg name="turtle_rapp_whitelist" value="[rocon_apps, turtle_concert]"/>\<newline>''
     @ ''  </launch>\<newline>''\<close>

subsection \<open>Concrete herders and environments\<close>

text \<open>
  Inputs at which the methods are evaluated below: a backend that cannot be reached, an
  operating system that delivers every signal, a herder with two turtles, the herder
  after its construction and one answered spawn request for \<^verbatim>\<open>kobuki\<close>, and a herder
  with a single process record whose temporary file exists (a herder no sequence of calls
  produces, see \<open>no_process_record_is_ever_kept\<close>).
\<close>

definition unreachable_backend :: "string \<Rightarrow> outcome" where
  "unreachable_backend name = RaisesServiceException"

definition herd_of_two :: herder where
  "herd_of_two = \<lparr>turtles = [''kobuki'', ''guimul''], process_info = [], effects = [], files = {}\<rparr>"

definition after_one_spawn :: herder where
  "after_one_spawn = run (init {}) [SpawnRequest ''kobuki'' Returns Returns]"

definition signals_delivered :: "nat \<Rightarrow> signal \<Rightarrow> bool" where
  "signals_delivered pid sig = True"

definition one_process :: herder where
  "one_process =
     \<lparr>turtles = [], process_info = [\<lparr>process = 4242, temp_file = ''/tmp/tmpq3k9wz''\<rparr>],
      effects = [], files = {''/tmp/tmpq3k9wz''}\<rparr>"

section \<open>Properties\<close>

subsection \<open>Lookups that fail, and what the trace keeps\<close>

lemma msg_unbound: "lookup_name [''self'', ''req''] ''msg'' = Inl (NameError ''msg'')"
  by (simp add: lookup_name_def module_globals_def)

lemma prepare_rocon_launch_text_no_attribute:
  "getattr_self ''_prepare_rocon_launch_text'' = Inl (AttributeError ''_prepare_rocon_launch_text'')"
  by (simp add: getattr_self_def instance_attributes_def class_attributes_def)

lemma emit_simps [simp]:
  "turtles (emit e st) = turtles st"
  "process_info (emit e st) = process_info st"
  "files (emit e st) = files st"
  "effects (emit e st) = effects st @ [e]"
  by (simp_all add: emit_def)

lemma send_flip_simps [simp]:
  "turtles (send_flip_rules_request fo st n c) = turtles st"
  "process_info (send_flip_rules_request fo st n c) = process_info st"
  "files (send_flip_rules_request fo st n c) = files st"
  "effects (send_flip_rules_request fo st n c) = effects st @ [GatewayFlip (flip_rules_request n c)]"
  by (simp_all add: send_flip_rules_request_def Let_def split: outcome.splits)

lemma kill_turtle_service_eq:
  "kill_turtle_service kill_outcome flip_outcome st req_name = (st, Inl (NameError ''msg''))"
  by (simp add: kill_turtle_service_def msg_unbound)

lemma spawn_turtles_eq:
  "spawn_turtles temp_name hydro pid st turtle_list
     = (emit (TempFileCreated temp_name) (st\<lparr>files := insert temp_name (files st)\<rparr>),
        Inl (AttributeError ''_prepare_rocon_launch_text''))"
  by (simp add: spawn_turtles_def prepare_rocon_launch_text_no_attribute Let_def)

subsection \<open>The name the loop returns is not registered\<close>

lemma unique_extension_fresh:
  "name @ unique_extension registry name name_extension count \<notin> set registry"
proof (induction registry name name_extension count rule: unique_extension.induct)
  case (1 registry name name_extension count)
  show ?case
  proof (cases "name @ name_extension \<in> set registry")
    case True
    with "1.IH" show ?thesis by (subst unique_extension.simps) simp
  next
    case False
    then show ?thesis by (subst unique_extension.simps) simp
  qed
qed

lemma unique_name_fresh: "unique_name registry name \<notin> set registry"
  by (simp add: unique_name_def unique_extension_fresh)

lemma shutdown_loop_turtles [simp]: "turtles (shutdown_loop kc ns st) = turtles st"
  by (induction ns arbitrary: st) (simp_all add: Let_def split: outcome.splits)

lemma signal_handler_loop_turtles [simp]:
  "turtles (fst (signal_handler_loop k ps st)) = turtles st"
  by (induction ps arbitrary: st) (simp_all add: Let_def)

lemma signal_handler_loop_process_info [simp]:
  "process_info (fst (signal_handler_loop k ps st)) = process_info st"
  by (induction ps arbitrary: st) (simp_all add: Let_def)

lemma step_distinct: "distinct (turtles st) \<Longrightarrow> distinct (turtles (step st ev))"
proof (cases ev)
  case (SpawnRequest n so fo)
  assume "distinct (turtles st)"
  with SpawnRequest show ?thesis
    by (cases so) (simp_all add: spawn_turtle_service_def Let_def unique_name_fresh)
next
  case (KillRequest n ko fo)
  assume "distinct (turtles st)"
  with KillRequest show ?thesis by (simp add: kill_turtle_service_eq)
next
  case (BatchSpawn ns t h p)
  assume "distinct (turtles st)"
  with BatchSpawn show ?thesis by (simp add: spawn_turtles_eq)
next
  case (ShutdownCall kc)
  assume "distinct (turtles st)"
  with ShutdownCall show ?thesis by (simp add: shutdown_def)
next
  case (Sigint k)
  assume "distinct (turtles st)"
  with Sigint show ?thesis by (simp add: signal_handler_def)
qed

text \<open>
  C1. Whatever spawn requests and batch spawns (and kill requests, shutdowns and
  interrupts) a herder receives after its construction, with whatever names and whatever
  answers of the backend and the gateway, its list of turtles holds no name twice. The
  statement covers every instant: each prefix of a sequence of calls is such a sequence.
  A spawn request appends only the name its loop found absent; a batch spawn raises before
  it extends the list, and a kill request before it removes from it.
\<close>

theorem registry_never_holds_a_duplicate:
  "distinct (turtles (run (init fs) evs))"
proof (induction evs rule: rev_induct)
  case Nil
  show ?case by (simp add: run_def init_def)
next
  case (snoc ev evs)
  then show ?case by (simp add: run_def step_distinct)
qed

text \<open>
  C3. A spawn request whose backend call raises \<^verbatim>\<open>rospy.ServiceException\<close> answers
  with the empty name, leaves the list of turtles as it was, and adds to the trace the
  backend call alone: no request goes to the gateway.
\<close>

theorem spawn_backend_failure:
  "snd (spawn_turtle_service RaisesServiceException flip_outcome st req_name) = []
   \<and> turtles (fst (spawn_turtle_service RaisesServiceException flip_outcome st req_name))
       = turtles st
   \<and> effects (fst (spawn_turtle_service RaisesServiceException flip_outcome st req_name))
       = effects st @ [InternalSpawn (unique_name (turtles st) req_name)]"
  by (simp add: spawn_turtle_service_def Let_def)

text \<open>
  C9. Every kill request raises \<^verbatim>\<open>NameError\<close> for \<^verbatim>\<open>msg\<close> at line 116, whatever the
  backend and the gateway would answer, and leaves the herder and the trace as they were:
  no backend call, no name removed, no reply, no cancellation.
\<close>

theorem kill_turtle_service_raises_name_error:
  "kill_turtle_service kill_outcome flip_outcome st req_name = (st, Inl (NameError ''msg''))
   \<and> turtles (fst (kill_turtle_service kill_outcome flip_outcome st req_name)) = turtles st
   \<and> effects (fst (kill_turtle_service kill_outcome flip_outcome st req_name)) = effects st"
  by (simp add: kill_turtle_service_eq)

text \<open>
  C10. Every batch spawn raises \<^verbatim>\<open>AttributeError\<close> for
  \<^verbatim>\<open>_prepare_rocon_launch_text\<close> at line 173. The temporary file of line 172 exists by
  then and stays; nothing is written to it, no process is started, no name is registered
  and no process record is kept (so no later teardown unlinks the file).
\<close>

theorem spawn_turtles_raises_attribute_error:
  "snd (spawn_turtles temp_name hydro pid st turtle_list)
     = Inl (AttributeError ''_prepare_rocon_launch_text'')
   \<and> turtles (fst (spawn_turtles temp_name hydro pid st turtle_list)) = turtles st
   \<and> process_info (fst (spawn_turtles temp_name hydro pid st turtle_list)) = process_info st
   \<and> effects (fst (spawn_turtles temp_name hydro pid st turtle_list))
       = effects st @ [TempFileCreated temp_name]
   \<and> temp_name \<in> files (fst (spawn_turtles temp_name hydro pid st turtle_list))"
  by (simp add: spawn_turtles_eq)

subsection \<open>Which name the loop returns\<close>

lemma unique_extension_least:
  "(name @ name_extension \<notin> set registry
      \<and> unique_extension registry name name_extension count = name_extension)
   \<or> (name @ name_extension \<in> set registry
      \<and> (\<exists>k. count \<le> k
            \<and> unique_extension registry name name_extension count = ''_'' @ str k
            \<and> name @ ''_'' @ str k \<notin> set registry
            \<and> (\<forall>j. count \<le> j \<and> j < k \<longrightarrow> name @ ''_'' @ str j \<in> set registry)))"
proof (induction registry name name_extension count rule: unique_extension.induct)
  case (1 registry name name_extension count)
  show ?case
  proof (cases "name @ name_extension \<in> set registry")
    case False
    then show ?thesis by (subst unique_extension.simps) simp
  next
    case True
    then have unf: "unique_extension registry name name_extension count
        = unique_extension registry name (''_'' @ str count) (count + 1)"
      by (subst unique_extension.simps) simp
    from "1.IH" [OF True] consider
      (stop) "name @ ''_'' @ str count \<notin> set registry"
        "unique_extension registry name (''_'' @ str count) (count + 1) = ''_'' @ str count"
    | (go) k where "name @ ''_'' @ str count \<in> set registry" "count + 1 \<le> k"
        "unique_extension registry name (''_'' @ str count) (count + 1) = ''_'' @ str k"
        "name @ ''_'' @ str k \<notin> set registry"
        "\<forall>j. count + 1 \<le> j \<and> j < k \<longrightarrow> name @ ''_'' @ str j \<in> set registry"
      by blast
    then show ?thesis
    proof cases
      case stop
      with True unf show ?thesis by (intro disjI2 conjI exI [of _ count]) auto
    next
      case go
      have "\<forall>j. count \<le> j \<and> j < k \<longrightarrow> name @ ''_'' @ str j \<in> set registry"
      proof (intro allI impI)
        fix j assume j: "count \<le> j \<and> j < k"
        show "name @ ''_'' @ str j \<in> set registry"
        proof (cases "j = count")
          case True with go(1) show ?thesis by simp
        next
          case False with j go(5) show ?thesis by simp
        qed
      qed
      with True unf go show ?thesis by (intro disjI2 conjI exI [of _ k]) simp_all
    qed
  qed
qed

text \<open>
  C2. For every requested name and every list of registered names, the name allocated is
  the requested one when that is not registered; otherwise it is the requested name
  followed by \<^verbatim>\<open>_\<close> and the decimal text of the least counter, counted from 0, whose
  candidate is not registered (every smaller counter's candidate is). In particular, from
  a herder that holds neither \<^verbatim>\<open>kobuki\<close> nor \<^verbatim>\<open>kobuki_0\<close>, two successive spawn
  requests for \<^verbatim>\<open>kobuki\<close> whose backend calls return are answered \<^verbatim>\<open>kobuki\<close> and
  \<^verbatim>\<open>kobuki_0\<close>.
\<close>

theorem unique_name_allocation:
  "(name \<notin> set registry \<longrightarrow> unique_name registry name = name)
   \<and> (name \<in> set registry \<longrightarrow>
        (\<exists>k. unique_name registry name = name @ ''_'' @ str k
           \<and> name @ ''_'' @ str k \<notin> set registry
           \<and> (\<forall>j<k. name @ ''_'' @ str j \<in> set registry)))
   \<and> (''kobuki'' \<notin> set (turtles st) \<and> ''kobuki_0'' \<notin> set (turtles st) \<longrightarrow>
        snd (spawn_turtle_service Returns fo1 st ''kobuki'') = ''kobuki''
        \<and> snd (spawn_turtle_service Returns fo2
                 (fst (spawn_turtle_service Returns fo1 st ''kobuki'')) ''kobuki'') = ''kobuki_0'')"
proof (intro conjI impI)
  assume "name \<notin> set registry"
  with unique_extension_least [of name "[]" registry 0]
  show "unique_name registry name = name" by (simp add: unique_name_def)
next
  assume "name \<in> set registry"
  with unique_extension_least [of name "[]" registry 0]
  show "\<exists>k. unique_name registry name = name @ ''_'' @ str k
           \<and> name @ ''_'' @ str k \<notin> set registry
           \<and> (\<forall>j<k. name @ ''_'' @ str j \<in> set registry)"
    by (auto simp add: unique_name_def)
next
  assume a: "''kobuki'' \<notin> set (turtles st) \<and> ''kobuki_0'' \<notin> set (turtles st)"
  then have u1: "unique_name (turtles st) ''kobuki'' = ''kobuki''"
    using unique_extension_least [of "''kobuki''" "[]" "turtles st" 0]
    by (simp add: unique_name_def)
  then show "snd (spawn_turtle_service Returns fo1 st ''kobuki'') = ''kobuki''"
    by (simp add: spawn_turtle_service_def Let_def)
  have t1: "turtles (fst (spawn_turtle_service Returns fo1 st ''kobuki''))
      = turtles st @ [''kobuki'']"
    using u1 by (simp add: spawn_turtle_service_def Let_def)
  have s0: "str 0 = ''0''" by (simp add: str.simps digit_def)
  have "unique_extension (turtles st @ [''kobuki'']) ''kobuki'' [] 0
      = unique_extension (turtles st @ [''kobuki'']) ''kobuki'' ''_0'' 1"
    by (subst unique_extension.simps) (simp add: s0)
  also have "\<dots> = ''_0''"
    using a by (subst unique_extension.simps) simp
  finally have u2: "unique_name (turtles st @ [''kobuki'']) ''kobuki'' = ''kobuki_0''"
    by (simp add: unique_name_def)
  show "snd (spawn_turtle_service Returns fo2
                 (fst (spawn_turtle_service Returns fo1 st ''kobuki'')) ''kobuki'') = ''kobuki_0''"
    by (subst spawn_turtle_service_def) (simp add: Let_def t1 u2)
qed

theorem unique_name_allocation_witness:
  "''guimul'' \<notin> set [''kobuki'', ''kobuki_0'']
   \<and> unique_name [''kobuki'', ''kobuki_0''] ''guimul'' = ''guimul''
   \<and> ''kobuki'' \<in> set [''kobuki'', ''kobuki_0'']
   \<and> unique_name [''kobuki'', ''kobuki_0''] ''kobuki'' = ''kobuki_1''
   \<and> ''kobuki'' \<notin> set (turtles (init {})) \<and> ''kobuki_0'' \<notin> set (turtles (init {}))
   \<and> snd (spawn_turtle_service Returns Returns (init {}) ''kobuki'') = ''kobuki''
   \<and> snd (spawn_turtle_service Returns Returns
             (fst (spawn_turtle_service Returns Returns (init {}) ''kobuki'')) ''kobuki'')
        = ''kobuki_0''"
proof -
  have i: "''kobuki'' \<notin> set (turtles (init {})) \<and> ''kobuki_0'' \<notin> set (turtles (init {}))"
    by (simp add: init_def)
  have g: "''guimul'' \<notin> set [''kobuki'', ''kobuki_0'']" by simp
  have k: "''kobuki'' \<in> set [''kobuki'', ''kobuki_0'']" by simp
  note a = unique_name_allocation [of "''guimul''" "[''kobuki'', ''kobuki_0'']" "init {}" Returns Returns]
  note b = unique_name_allocation [of "''kobuki''" "[''kobuki'', ''kobuki_0'']" "init {}" Returns Returns]
  from b k obtain n where n: "unique_name [''kobuki'', ''kobuki_0''] ''kobuki'' = ''kobuki'' @ ''_'' @ str n"
    "''kobuki'' @ ''_'' @ str n \<notin> set [''kobuki'', ''kobuki_0'']"
    "\<forall>j<n. ''kobuki'' @ ''_'' @ str j \<in> set [''kobuki'', ''kobuki_0'']" by blast
  have s0: "str 0 = ''0''" and s1: "str 1 = ''1''" and s2: "str 2 = ''2''"
    by (simp_all add: str.simps digit_def)
  have "n = 1"
  proof (rule ccontr)
    assume ne: "n \<noteq> 1"
    show False
    proof (cases "n = 0")
      case True with n(2) s0 show False by simp
    next
      case False
      with ne have "2 < n \<or> n = 2" by arith
      then have "1 < n" by arith
      with n(3) have "''kobuki'' @ ''_'' @ str 1 \<in> set [''kobuki'', ''kobuki_0'']" by blast
      with s1 show False by simp
    qed
  qed
  with n(1) s1 have "unique_name [''kobuki'', ''kobuki_0''] ''kobuki'' = ''kobuki_1''" by simp
  with a b i g k show ?thesis by simp
qed

subsection \<open>Shutdown\<close>

lemma shutdown_loop_effects:
  "effects (shutdown_loop kc ns st)
     = effects st @ map InternalKill (takeWhile (\<lambda>n. kc n = Returns) ns
                                       @ take 1 (dropWhile (\<lambda>n. kc n = Returns) ns))"
  by (induction ns arbitrary: st) (simp_all add: Let_def split: outcome.splits)

lemma shutdown_loop_process_info [simp]: "process_info (shutdown_loop kc ns st) = process_info st"
  by (induction ns arbitrary: st) (simp_all add: Let_def split: outcome.splits)

lemma shutdown_loop_files [simp]: "files (shutdown_loop kc ns st) = files st"
  by (induction ns arbitrary: st) (simp_all add: Let_def split: outcome.splits)

text \<open>
  C6, as the claim states it, fails: with two registered turtles and a backend that cannot
  be reached, shutdown calls the kill service for the first turtle and never for the
  second.
\<close>

theorem shutdown_stops_at_first_failure_counterexample:
  "effects (shutdown unreachable_backend herd_of_two) = [InternalKill ''kobuki'']
   \<and> InternalKill ''guimul'' \<notin> set (effects (shutdown unreachable_backend herd_of_two))"
  by (simp add: shutdown_def herd_of_two_def unreachable_backend_def emit_def)

text \<open>
  C6, amended. Shutdown calls the kill service for the registered names in list order, up
  to and including the first name whose call raises; after a call that raised, no further
  name is tried (\<^verbatim>\<open>break  # quietly fail\<close>). When no call raises, that is every
  registered name. The list of turtles itself is not changed.
\<close>

theorem shutdown_kills_up_to_first_failure:
  "effects (shutdown kill_client st)
     = effects st @ map InternalKill
         (takeWhile (\<lambda>name. kill_client name = Returns) (turtles st)
          @ take 1 (dropWhile (\<lambda>name. kill_client name = Returns) (turtles st)))
   \<and> turtles (shutdown kill_client st) = turtles st"
  by (simp add: shutdown_def shutdown_loop_effects)

subsection \<open>The launch text\<close>

lemma launch_entry_port: "launch_entry name (11 + i) = entry_with_port name (allocated_port i)"
  by (simp add: launch_entry_def entry_with_port_def allocated_port_def)

lemma launch_loop_text:
  "launch_loop ns p t = t @ concat (map (\<lambda>(port, name). launch_entry name port) (enumerate p ns))"
  by (induction ns arbitrary: p t) simp_all

lemma enumerate_shift:
  "map (\<lambda>(port, name). launch_entry name port) (enumerate (11 + k) ns)
     = map (\<lambda>(i, name). entry_with_port name (allocated_port i)) (enumerate k ns)"
proof (induction ns arbitrary: k)
  case Nil show ?case by simp
next
  case (Cons n ns)
  from Cons [of "Suc k"] show ?case by (simp add: launch_entry_port)
qed

lemma allocated_port_inj: "allocated_port i = allocated_port j \<Longrightarrow> i = j"
  using str_inj [of "11 + i" "11 + j"] by (simp add: allocated_port_def)

lemma str_step: "0 < q \<Longrightarrow> r < 10 \<Longrightarrow> str (10 * q + r) = str q @ [digit r]"
  by (subst str.simps) simp

lemma str_one_digit: "d < 10 \<Longrightarrow> str d = [digit d]"
  by (subst str.simps) simp

lemma str_114: "str 114 = ''114''"
  by (simp add: str.simps digit_def)

lemma str_114_two_digits:
  assumes "10 \<le> m" "m < 100"
  shows "str (11400 + m) = ''114'' @ str m"
proof -
  define d u where "d = m div 10" and "u = m mod 10"
  have m: "m = 10 * d + u" by (simp add: d_def u_def)
  from assms have d: "0 < d" "d < 10" and u: "u < 10" by (simp_all add: d_def u_def)
  have big: "11400 + (10 * d + u) = 10 * (10 * 114 + d) + u" by simp
  have "str (10 * (10 * 114 + d) + u) = str (10 * 114 + d) @ [digit u]"
    using u by (intro str_step) simp_all
  also have "str (10 * 114 + d) = str 114 @ [digit d]"
    using d by (intro str_step) simp_all
  finally have 1: "str (11400 + m) = ''114'' @ [digit d, digit u]"
    by (simp only: m big str_114 append_assoc append_Cons append_Nil)
  have "str (10 * d + u) = str d @ [digit u]" using d u by (intro str_step)
  with d have 2: "str m = [digit d, digit u]"
    by (simp only: m str_one_digit append_Cons append_Nil)
  from 1 2 show ?thesis by (simp only:)
qed

lemma allocated_port_number: "i < 89 \<Longrightarrow> allocated_port i = str (11411 + i)"
proof -
  assume "i < 89"
  then have "str (11400 + (11 + i)) = ''114'' @ str (11 + i)"
    by (intro str_114_two_digits) simp_all
  moreover have "11400 + (11 + i) = 11411 + i" by simp
  ultimately have "str (11411 + i) = ''114'' @ str (11 + i)" by (simp only:)
  then show ?thesis by (simp only: allocated_port_def)
qed

text \<open>
  C8, as the claim states it, fails. \<^verbatim>\<open>prepare_rocon_launch_text\<close>, applied to
  \<^verbatim>\<open>kobuki\<close>, \<^verbatim>\<open>guimul\<close>, returns a text whose entries carry the ports 11411 and
  11412, not 1141 and 1142. And a batch spawn of these two names on a freshly constructed
  herder generates no configuration at all: after the constructor's kill of
  \<^verbatim>\<open>turtle1\<close> its trace holds the creation of the temporary file and nothing else.
\<close>

theorem launch_text_ports_counterexample:
  \<open>prepare_rocon_launch_text [''kobuki'', ''guimul''] =
     ''<concert>\<newline>''
     @ ''  <launch title="kobuki:11411" package="rocon_service_turtlesim" name="turtle.launch" port="11411">\<newline>''
     @ ''    <arg name="turtle_name" value="kobuki"/>\<newline>''
     @ ''    <arg name="turtle_concert_whitelist" value="Turtle Concert;Turtle Teleop Concert;Concert Tutorial"/>\<newline>''
     @ ''    <arg name="turtle_rapp_whitelist" value="[rocon_apps, turtle_concert]"/>\<newline>''
     @ ''  </launch>\<newline>''
     @ ''  <launch title="guimul:11412" package="rocon_service_turtlesim" name="turtle.launch" port="11412">\<newline>''
     @ ''    <arg name="turtle_name" value="guimul"/>\<newline>''
     @ ''    <arg name="turtle_concert_whitelist" value="Turtle Concert;Turtle Teleop Concert;Concert Tutorial"/>\<newline>''
     @ ''    <arg name="turtle_rapp_whitelist" value="[rocon_apps, turtle_concert]"/>\<newline>''
     @ ''  </launch>\<newline>''
     @ ''</concert>\<newline>''
   \<and> map allocated_port [0..<length [''kobuki'', ''guimul'']] \<noteq> [''1141'', ''1142'']
   \<and> effects (fst (spawn_turtles ''/tmp/tmpq3k9wz'' False 4242 (init {}) [''kobuki'', ''guimul'']))
       = [InternalKill ''turtle1'', TempFileCreated ''/tmp/tmpq3k9wz'']\<close>
proof -
  have s: "str 11 = ''11''" "str 12 = ''12''" by (simp_all add: str.simps digit_def)
  show ?thesis
    by (simp add: prepare_rocon_launch_text_def launch_entry_def allocated_port_def s upt_rec
        spawn_turtles_eq init_def)
qed

text \<open>
  C8, amended, for the builder \<^verbatim>\<open>prepare_rocon_launch_text\<close> (lines 45 to 56) alone.
  The text it returns is the opening line, one entry per name in order, and the closing
  line. The entry at index \<open>i\<close> carries as port the text \<^verbatim>\<open>114\<close> followed by the
  decimal text of \<open>11 + i\<close>: the ports are fixed by the position alone and pairwise
  different; for the first 89 entries they are the consecutive numbers \<open>11411 + i\<close>, and
  the entry at index 89 carries 114100. For the names \<^verbatim>\<open>kobuki\<close>, \<^verbatim>\<open>guimul\<close> they
  are 11411 and 11412.
\<close>

theorem launch_text_ports:
  "prepare_rocon_launch_text ns
     = ''<concert>\<newline>''
       @ concat (map (\<lambda>(i, name). entry_with_port name (allocated_port i)) (enumerate 0 ns))
       @ ''</concert>\<newline>''
   \<and> distinct (map allocated_port [0..<length ns])
   \<and> (\<forall>i<89. allocated_port i = str (11411 + i))
   \<and> allocated_port 89 = ''114100''
   \<and> map allocated_port [0..<length [''kobuki'', ''guimul'']] = [''11411'', ''11412'']"
proof (intro conjI)
  show "prepare_rocon_launch_text ns
     = ''<concert>\<newline>''
       @ concat (map (\<lambda>(i, name). entry_with_port name (allocated_port i)) (enumerate 0 ns))
       @ ''</concert>\<newline>''"
    using enumerate_shift [of 0 ns]
    by (simp add: prepare_rocon_launch_text_def launch_loop_text)
  show "distinct (map allocated_port [0..<length ns])"
    by (simp add: distinct_map inj_on_def allocated_port_inj)
  show "\<forall>i<89. allocated_port i = str (11411 + i)"
    by (simp add: allocated_port_number)
  show "allocated_port 89 = ''114100''"
    by (simp add: allocated_port_def str.simps digit_def)
  have "str 11 = ''11''" "str 12 = ''12''" by (simp_all add: str.simps digit_def)
  then show "map allocated_port [0..<length [''kobuki'', ''guimul'']] = [''11411'', ''11412'']"
    by (simp add: allocated_port_def upt_rec)
qed

theorem launch_text_ports_witness:
  "(0::nat) < 89 \<and> allocated_port 0 = str (11411 + 0) \<and> str (11411 + 0) = ''11411''
   \<and> (88::nat) < 89 \<and> allocated_port 88 = str (11411 + 88) \<and> str (11411 + 88) = ''11499''"
proof -
  from launch_text_ports [of "[]"] have a: "\<forall>i<89. allocated_port i = str (11411 + i)"
    by blast
  have 0: "(0::nat) < 89" and 88: "(88::nat) < 89" by simp_all
  from a 0 have p0: "allocated_port 0 = str (11411 + 0)" by blast
  from a 88 have p88: "allocated_port 88 = str (11411 + 88)" by blast
  have s0: "str (11411 + 0) = ''11411''" and s88: "str (11411 + 88) = ''11499''"
    by (simp_all add: str.simps digit_def)
  from 0 88 p0 p88 s0 s88 show ?thesis by blast
qed

subsection \<open>Teardown of the launched processes\<close>




subsection \<open>Kill requests\<close>

lemma after_one_spawn_eq:
  "after_one_spawn =
     \<lparr>turtles = [''kobuki''], process_info = [],
      effects = [InternalKill ''turtle1'', InternalSpawn ''kobuki'',
                 GatewayFlip (flip_rules_request ''kobuki'' False)],
      files = {}\<rparr>"
proof -
  have "unique_extension [] ''kobuki'' [] 0 = []"
    by (subst unique_extension.simps) simp
  then show ?thesis
    by (simp add: after_one_spawn_def run_def init_def spawn_turtle_service_def
        unique_name_def send_flip_rules_request_def emit_def Let_def)
qed

text \<open>
  C4 at a concrete input: on the herder that holds \<^verbatim>\<open>kobuki\<close> after one answered
  spawn request, a kill request for \<^verbatim>\<open>kobuki\<close> with a backend that would raise
  \<^verbatim>\<open>rospy.ServiceException\<close> raises \<^verbatim>\<open>NameError\<close> at line 116. The herder is as
  before, and the trace holds the constructor's kill of \<^verbatim>\<open>turtle1\<close>, the spawn call
  and the announcement of the spawn only: the backend kill call was not issued, no reply
  was sent and no cancellation went to the gateway.
\<close>

theorem kill_backend_failure_raises:
  "turtles after_one_spawn = [''kobuki'']
   \<and> kill_turtle_service RaisesServiceException Returns after_one_spawn ''kobuki''
       = (after_one_spawn, Inl (NameError ''msg''))
   \<and> effects (fst (kill_turtle_service RaisesServiceException Returns after_one_spawn ''kobuki''))
       = [InternalKill ''turtle1'', InternalSpawn ''kobuki'',
          GatewayFlip (flip_rules_request ''kobuki'' False)]"
  by (simp add: kill_turtle_service_eq after_one_spawn_eq)

text \<open>
  C5 at a concrete input: a kill request for \<^verbatim>\<open>ghost\<close> on a freshly constructed
  herder, backend and gateway answering, raises \<^verbatim>\<open>NameError\<close>. The list is unchanged,
  and the trace holds the constructor's kill of \<^verbatim>\<open>turtle1\<close> only: no cancellation
  went to the gateway.
\<close>

theorem kill_unknown_name_raises:
  "kill_turtle_service Returns Returns (init {}) ''ghost'' = (init {}, Inl (NameError ''msg''))
   \<and> ''ghost'' \<notin> set (turtles (init {}))
   \<and> effects (fst (kill_turtle_service Returns Returns (init {}) ''ghost''))
       = [InternalKill ''turtle1'']"
  by (simp add: kill_turtle_service_eq init_def)

subsection \<open>What the failing batch spawn hides\<close>

text \<open>
  The names of lines 163 to 170 are each looked up in the list of turtles alone, not in
  the names already chosen for the same batch: for a batch that repeats a name they
  repeat. They never reach the list, since line 173 raises first. For the same reason no
  process record is ever kept. The handler of lines 222 to 231 itself drops no record:
  on \<open>one_process\<close>, a herder that no sequence of calls produces, a second run would
  signal the process and unlink the file again.
\<close>

lemma batch_names_may_repeat:
  "map (unique_name (turtles (init {}))) [''kobuki'', ''kobuki''] = [''kobuki'', ''kobuki'']"
proof -
  have "unique_extension [] ''kobuki'' [] 0 = []"
    by (subst unique_extension.simps) simp
  then show ?thesis by (simp add: init_def unique_name_def)
qed

lemma teardown_of_a_kept_record_twice:
  "signal_handler signals_delivered (fst (signal_handler signals_delivered one_process))
     = (\<lparr>turtles = [], process_info = [\<lparr>process = 4242, temp_file = ''/tmp/tmpq3k9wz''\<rparr>],
         effects = [SendSignal 4242 SIGTERM, SendSignal 4242 SIGHUP, Unlink ''/tmp/tmpq3k9wz'',
                    SendSignal 4242 SIGTERM, SendSignal 4242 SIGHUP, Unlink ''/tmp/tmpq3k9wz''],
         files = {}\<rparr>,
        Inl OSError)"
  by (simp add: signal_handler_def one_process_def signals_delivered_def emit_def Let_def)

end
